theory Spec2Isabelle
  imports Complex_Main "HOL-Library.Word" "HOL-Library.AList"
begin

unbundle bit_operations_syntax

section \<open>WorldManager: data model\<close>

text \<open>
  The embedding follows \<^verbatim>\<open>src/engine/WorldManager.js\<close> (the live class, not the
  commented-out revision kept below it in the same file).

  Conventions of the embedding.
  \<^item> A JavaScript Number that holds a coordinate, a noise value, a radius or the tile
    size is a \<open>real\<close>; chunk and tile indices, which the code produces by
    \<^verbatim>\<open>Math.floor\<close>, the numeric seed and the octave count are \<open>int\<close>; the chunk side
    and the tile types are \<open>nat\<close>. Rounding of IEEE doubles (and of the
    \<^verbatim>\<open>Float32Array\<close> that stores the scalar fields) is not modelled. The one place
    where the non-finite values of a Number matter, the quotient \<^verbatim>\<open>dx / distance\<close>,
    has the type \<open>jsnum\<close>.
  \<^item> The chunk key \<^verbatim>\<open>`${cx},${cy}`\<close> is the pair \<open>(cx, cy)\<close>: the string is an
    injective rendering of two integers.
  \<^item> A JavaScript \<^verbatim>\<open>Map\<close> is an association list in insertion order:
    \<^verbatim>\<open>set\<close> is \<open>AList.update\<close>, \<^verbatim>\<open>delete\<close> is \<open>AList.delete\<close>,
    \<^verbatim>\<open>get\<close> is \<open>map_of\<close>, \<^verbatim>\<open>clear\<close> is \<open>[]\<close>.
  \<^item> The 32-bit state of the decoration generator is a \<open>32 word\<close>.
  \<^item> Coordinates and radii are finite and the two sizes \<open>chunkSize\<close> and \<open>tileSize\<close>
    are positive, as the constructor's defaults are: a quotient by a size of 0, which is
    an infinity or \<^verbatim>\<open>NaN\<close> in JavaScript and 0 in HOL, is outside the embedding.
\<close>

type_synonym key = "int \<times> int"

definition key_of :: "int \<Rightarrow> int \<Rightarrow> key" where
  "key_of cx cy = (cx, cy)"

record noiseConfig =
  scale :: real
  octaves :: int
  lacunarity :: real
  gain :: real
  heightWeight :: real
  moistureWeight :: real
  temperatureWeight :: real

record biomeData =
  height :: "real list"
  moisture :: "real list"
  temperature :: "real list"

record chunkData =
  tiles :: "nat list"
  biome :: biomeData

record canvas =
  width :: real
  height_px :: real

record chunk =
  chunk_cx :: int
  chunk_cy :: int
  chunk_tiles :: "nat list"
  chunk_biome :: "biomeData option"
  generatedAt :: nat
  chunk_canvas :: "canvas option"
  chunk_generationId :: nat

text \<open>
  The identifier \<^verbatim>\<open>`${chunkKey}_tree_${tx}_${ty}`\<close> of a tree is kept as its three
  components.
\<close>

datatype obstacleId = TreeId key nat nat

record obstacle =
  ob_width :: real
  ob_height :: real
  ob_x :: real
  ob_y :: real
  ob_id :: obstacleId
  collisionRadius :: real

text \<open>The payload handed to \<^verbatim>\<open>pool.enqueue\<close>.\<close>

record job =
  job_cx :: int
  job_cy :: int
  job_chunkSize :: nat
  job_tileSize :: real
  job_seedNum :: int
  job_noiseConfig :: noiseConfig

text \<open>
  The manager. \<open>pool\<close> is \<open>None\<close> when the worker pool could not be created; otherwise
  it holds the jobs enqueued so far (the pool itself is an external collaborator, of
  which only the dispatches are observed). An in-flight promise is named by the index of
  its job in that list. \<open>hasDocument\<close> is the result of
  \<^verbatim>\<open>typeof document !== 'undefined'\<close> and \<open>now\<close> that of \<^verbatim>\<open>Date.now()\<close>.
\<close>

record manager =
  chunkSize :: nat
  tileSize :: real
  seed :: string
  seedNum :: int
  noiseCfg :: noiseConfig
  chunks :: "(key \<times> chunk) list"
  collisionMap :: "(key \<times> obstacle list) list"
  generationQueue :: "(key \<times> nat) list"
  generationId :: nat
  pool :: "job list option"
  hasDocument :: bool
  now :: nat

section \<open>Noise engine\<close>

definition fract :: "real \<Rightarrow> real" where
  "fract x = x - of_int \<lfloor>x\<rfloor>"

definition hash2 :: "real \<Rightarrow> real \<Rightarrow> int \<Rightarrow> real" where
  "hash2 x y sd = fract (sin (x * 127.1 + y * 311.7 + of_int sd * 101.7) * 43758.5453123)"

definition lerp :: "real \<Rightarrow> real \<Rightarrow> real \<Rightarrow> real" where
  "lerp a b t = a + (b - a) * t"

definition fade :: "real \<Rightarrow> real" where
  "fade t = t * t * (3 - 2 * t)"

definition valueNoise2D :: "real \<Rightarrow> real \<Rightarrow> int \<Rightarrow> real" where
  "valueNoise2D x y sd =
     (let x0 = of_int \<lfloor>x\<rfloor>;
          y0 = of_int \<lfloor>y\<rfloor>;
          sx = x - x0;
          sy = y - y0;
          n00 = hash2 x0 y0 sd;
          n10 = hash2 (x0 + 1) y0 sd;
          n01 = hash2 x0 (y0 + 1) sd;
          n11 = hash2 (x0 + 1) (y0 + 1) sd;
          ix0 = lerp n00 n10 (fade sx);
          ix1 = lerp n01 n11 (fade sx)
      in lerp ix0 ix1 (fade sy))"

text \<open>
  The loop of \<^verbatim>\<open>fractalNoise2D\<close>, with its four variables \<^verbatim>\<open>freq, amp, sum, max\<close>
  as the last argument
  (\<open>acc\<close> and \<open>mx\<close> for the last two); it returns \<^verbatim>\<open>(sum, max)\<close>.
\<close>

function fractal_loop ::
  "int \<Rightarrow> int \<Rightarrow> real \<Rightarrow> real \<Rightarrow> int \<Rightarrow> real \<Rightarrow> real \<Rightarrow> real \<times> real \<times> real \<times> real
     \<Rightarrow> real \<times> real" where
  "fractal_loop i octs x y sd lac g (freq, amp, acc, mx) =
     (if i < octs
      then fractal_loop (i + 1) octs x y sd lac g
             (freq * lac, amp * g,
              acc + valueNoise2D (x * freq) (y * freq) (sd + i * 1000) * amp,
              mx + amp)
      else (acc, mx))"
  by pat_completeness auto
termination
  by (relation "measure (\<lambda>(i, octs, x, y, sd, lac, g, v). nat (octs - i))") auto

definition fractalNoise2D :: "real \<Rightarrow> real \<Rightarrow> int \<Rightarrow> int \<Rightarrow> real \<Rightarrow> real \<Rightarrow> real" where
  "fractalNoise2D x y sd octs lac g =
     (case fractal_loop 0 octs x y sd lac g (1, 1, 0, 0) of
        (acc, mx) \<Rightarrow> if mx = 0 then 0 else acc / mx)"

text \<open>The defaults \<^verbatim>\<open>lacunarity = 2.0, gain = 0.5\<close> of a call with four arguments.\<close>

definition fractalNoise2D_4 :: "real \<Rightarrow> real \<Rightarrow> int \<Rightarrow> int \<Rightarrow> real" where
  "fractalNoise2D_4 x y sd octs = fractalNoise2D x y sd octs 2.0 0.5"

definition ridgeNoise :: "real \<Rightarrow> real \<Rightarrow> int \<Rightarrow> real" where
  "ridgeNoise x y sd = 1 - \<bar>fractalNoise2D_4 x y sd 1 * 2 - 1\<bar>"

section \<open>Terrain synthesis\<close>

text \<open>
  The five noise samples of the tile \<open>(tx, ty)\<close> of chunk \<open>(cx, cy)\<close>, as the body of the
  loops of \<^verbatim>\<open>_generateChunkData\<close> computes them from
  \<^verbatim>\<open>worldX = cx * size + tx\<close> and \<^verbatim>\<open>worldY = cy * size + ty\<close>.
\<close>

definition worldX :: "manager \<Rightarrow> int \<Rightarrow> nat \<Rightarrow> real" where
  "worldX s cx tx = of_int (cx * int (chunkSize s) + int tx)"

definition worldY :: "manager \<Rightarrow> int \<Rightarrow> nat \<Rightarrow> real" where
  "worldY s cy ty = of_int (cy * int (chunkSize s) + int ty)"

definition heightAt :: "manager \<Rightarrow> int \<Rightarrow> int \<Rightarrow> nat \<Rightarrow> nat \<Rightarrow> real" where
  "heightAt s cx cy tx ty =
     fractalNoise2D (worldX s cx tx * scale (noiseCfg s)) (worldY s cy ty * scale (noiseCfg s))
       (seedNum s) (octaves (noiseCfg s)) (lacunarity (noiseCfg s)) (gain (noiseCfg s))
     * heightWeight (noiseCfg s)"

definition moistureAt :: "manager \<Rightarrow> int \<Rightarrow> int \<Rightarrow> nat \<Rightarrow> nat \<Rightarrow> real" where
  "moistureAt s cx cy tx ty =
     fractalNoise2D_4 (worldX s cx tx * scale (noiseCfg s) * 1.3)
       (worldY s cy ty * scale (noiseCfg s) * 1.3)
       (seedNum s + 1000) (octaves (noiseCfg s) - 1)
     * moistureWeight (noiseCfg s)"

definition temperatureAt :: "manager \<Rightarrow> int \<Rightarrow> int \<Rightarrow> nat \<Rightarrow> nat \<Rightarrow> real" where
  "temperatureAt s cx cy tx ty =
     fractalNoise2D_4 (worldX s cx tx * scale (noiseCfg s) * 0.8)
       (worldY s cy ty * scale (noiseCfg s) * 0.8)
       (seedNum s + 2000) (octaves (noiseCfg s) - 1)
     * temperatureWeight (noiseCfg s)"

definition ridgeAt :: "manager \<Rightarrow> int \<Rightarrow> int \<Rightarrow> nat \<Rightarrow> nat \<Rightarrow> real" where
  "ridgeAt s cx cy tx ty =
     ridgeNoise (worldX s cx tx * scale (noiseCfg s) * 0.5)
       (worldY s cy ty * scale (noiseCfg s) * 0.5) (seedNum s + 3000)"

definition featureNoiseAt :: "manager \<Rightarrow> int \<Rightarrow> int \<Rightarrow> nat \<Rightarrow> nat \<Rightarrow> real" where
  "featureNoiseAt s cx cy tx ty =
     fractalNoise2D_4 (worldX s cx tx * scale (noiseCfg s) * 4)
       (worldY s cy ty * scale (noiseCfg s) * 4) (seedNum s + 4000) 2"

text \<open>
  The biome determination (the \<^verbatim>\<open>if\<close> cascade on \<^verbatim>\<open>height\<close>), in the order of
  the source. Tile types: 0 deep ocean, 1 ocean, 2 shallow water, 3 beach, 4 grass,
  5 forest, 6 dirt, 7 mountain, 8 snow mountain, 9 road, 10 building, 11 ruin.
\<close>

definition classifyBiome :: "real \<Rightarrow> real \<Rightarrow> real \<Rightarrow> real \<Rightarrow> nat" where
  "classifyBiome h m t ridge =
     (if h < 0.12 then (if h < 0.06 then 0 else if h < 0.09 then 1 else 2)
      else if h < 0.16 then 3
      else if h < 0.65 then
        (if m > 0.7 then 5
         else if m < 0.3 then 6
         else 4)
      else if h < 0.82 then
        (if ridge > 0.6 then 7
         else (if t > 0.6 then 6 else 4))
      else (if h > 0.88 then 8 else 7))"

text \<open>The infrastructure overlay that follows it, applied to the biome's tile type.\<close>

definition applyInfrastructure :: "real \<Rightarrow> real \<Rightarrow> real \<Rightarrow> real \<Rightarrow> nat \<Rightarrow> nat" where
  "applyInfrastructure featureNoise h m t tileType =
     (if featureNoise > 0.65 \<and> featureNoise < 0.67 \<and> h > 0.3 \<and> h < 0.6 \<and> m > 0.4
      then 9
      else if featureNoise > 0.75 \<and> h > 0.35 \<and> h < 0.5
      then (if t > 0.5 then 10 else 11)
      else tileType)"

definition tileTypeAt :: "manager \<Rightarrow> int \<Rightarrow> int \<Rightarrow> nat \<Rightarrow> nat \<Rightarrow> nat" where
  "tileTypeAt s cx cy tx ty =
     applyInfrastructure (featureNoiseAt s cx cy tx ty)
       (heightAt s cx cy tx ty) (moistureAt s cx cy tx ty) (temperatureAt s cx cy tx ty)
       (classifyBiome (heightAt s cx cy tx ty) (moistureAt s cx cy tx ty)
          (temperatureAt s cx cy tx ty) (ridgeAt s cx cy tx ty))"

text \<open>
  One pass of the loop body: the three scalar fields and the tile grid are written at
  \<^verbatim>\<open>idx = ty * size + tx\<close>.
\<close>

definition generateTile :: "manager \<Rightarrow> int \<Rightarrow> int \<Rightarrow> nat \<Rightarrow> nat \<Rightarrow> chunkData \<Rightarrow> chunkData" where
  "generateTile s cx cy ty tx d =
     (let idx = ty * chunkSize s + tx
      in \<lparr> tiles = (tiles d)[idx := tileTypeAt s cx cy tx ty],
           biome = \<lparr> height = (height (biome d))[idx := heightAt s cx cy tx ty],
                     moisture = (moisture (biome d))[idx := moistureAt s cx cy tx ty],
                     temperature = (temperature (biome d))[idx := temperatureAt s cx cy tx ty] \<rparr> \<rparr>)"

definition emptyChunkData :: "nat \<Rightarrow> chunkData" where
  "emptyChunkData n =
     \<lparr> tiles = replicate (n * n) 0,
       biome = \<lparr> height = replicate (n * n) 0,
                 moisture = replicate (n * n) 0,
                 temperature = replicate (n * n) 0 \<rparr> \<rparr>"

definition generateRow :: "manager \<Rightarrow> int \<Rightarrow> int \<Rightarrow> chunkData \<Rightarrow> nat \<Rightarrow> chunkData" where
  "generateRow s cx cy d ty = foldl (\<lambda>d tx. generateTile s cx cy ty tx d) d [0..<chunkSize s]"

definition generateChunkData :: "manager \<Rightarrow> int \<Rightarrow> int \<Rightarrow> chunkData" where
  "generateChunkData s cx cy =
     foldl (generateRow s cx cy) (emptyChunkData (chunkSize s)) [0..<chunkSize s]"

section \<open>The per-chunk decoration generator\<close>

text \<open>
  \<^verbatim>\<open>_createChunkRNG\<close>: the closure's variable \<^verbatim>\<open>state\<close> starts as the Number
  \<^verbatim>\<open>seedNum + cx * 131 + cy * 197\<close>; the first \<^verbatim>\<open>Math.imul\<close> reads it modulo
  \<open>2 ^ 32\<close>, which is \<open>word_of_int\<close>. One draw multiplies twice and returns the low 31
  bits divided by \<^verbatim>\<open>0x7fffffff\<close>.
\<close>

definition createChunkRNG :: "manager \<Rightarrow> int \<Rightarrow> int \<Rightarrow> 32 word" where
  "createChunkRNG s cx cy = word_of_int (seedNum s + cx * 131 + cy * 197)"

definition rng_step :: "32 word \<Rightarrow> 32 word" where
  "rng_step st = (st * 1597334677) * 1597334677"

definition rng_value :: "32 word \<Rightarrow> real" where
  "rng_value st = real (unat (st AND 0x7fffffff)) / 0x7fffffff"

definition rng :: "32 word \<Rightarrow> real \<times> 32 word" where
  "rng st = (let st' = rng_step st in (rng_value st', st'))"

text \<open>The values of the first \<open>n\<close> calls of the closure.\<close>

fun draws :: "nat \<Rightarrow> 32 word \<Rightarrow> real list" where
  "draws 0 st = []"
| "draws (Suc n) st = (case rng st of (v, st') \<Rightarrow> v # draws n st')"

section \<open>Decoration and the collision registry\<close>

text \<open>
  \<^verbatim>\<open>_drawTree\<close> draws and returns the extents used for collision; only the extents
  are kept here (the species of the tree changes the drawing alone).
\<close>

definition drawTree :: "real \<Rightarrow> real \<Rightarrow> real \<times> real" where
  "drawTree size_px age =
     (let trunkHeight = size_px * 1.2 * age;
          canopySize = size_px * 1.4 * age
      in (canopySize, trunkHeight + canopySize))"

definition makeTree :: "manager \<Rightarrow> int \<Rightarrow> int \<Rightarrow> real \<Rightarrow> nat \<Rightarrow> nat \<Rightarrow> real \<times> real \<Rightarrow> obstacle" where
  "makeTree s cx cy tilePx tx ty treeCollision =
     (let localX = real tx * tilePx + tilePx / 2;
          localY = real ty * tilePx + tilePx / 2;
          worldTreeX = of_int cx * real (chunkSize s) * tilePx + localX;
          worldTreeY = of_int cy * real (chunkSize s) * tilePx + localY
      in \<lparr> ob_width = fst treeCollision, ob_height = snd treeCollision,
           ob_x = worldTreeX, ob_y = worldTreeY,
           ob_id = TreeId (key_of cx cy) tx ty,
           collisionRadius = max (fst treeCollision) (snd treeCollision) * 0.4 \<rparr>)"

text \<open>
  The body of the loops of \<^verbatim>\<open>_decorateChunk\<close> for one tile: one draw of the
  generator, then the \<^verbatim>\<open>switch\<close> on the tile type. The cases 10 and 11 only draw.
  A read past the end of \<^verbatim>\<open>tiles\<close> or of \<^verbatim>\<open>biomeData.moisture\<close> is
  \<^verbatim>\<open>undefined\<close> in the source: no case matches, the comparison is false.
\<close>

definition decorateTile ::
  "manager \<Rightarrow> int \<Rightarrow> int \<Rightarrow> nat list \<Rightarrow> biomeData \<Rightarrow> real \<Rightarrow> nat \<Rightarrow> 32 word \<times> obstacle list \<Rightarrow> nat
     \<Rightarrow> 32 word \<times> obstacle list" where
  "decorateTile s cx cy tls bd tilePx ty acc tx =
     (case acc of (st, chunkTrees) \<Rightarrow>
        (let idx = ty * chunkSize s + tx in
         case rng st of (featureRoll, st') \<Rightarrow>
           if idx < length tls \<and> tls ! idx = 5 then
             (if featureRoll < 0.3
              then (st', chunkTrees @
                      [makeTree s cx cy tilePx tx ty
                         (drawTree (tilePx * 1.1) (0.8 + featureRoll * 0.4))])
              else (st', chunkTrees))
           else if idx < length tls \<and> tls ! idx = 4 then
             (if featureRoll < 0.05 \<and> idx < length (moisture bd) \<and> moisture bd ! idx > 0.5
              then (st', chunkTrees @
                      [makeTree s cx cy tilePx tx ty
                         (drawTree (tilePx * 0.9) (0.6 + featureRoll))])
              else (st', chunkTrees))
           else (st', chunkTrees)))"

definition decorateRow ::
  "manager \<Rightarrow> int \<Rightarrow> int \<Rightarrow> nat list \<Rightarrow> biomeData \<Rightarrow> real \<Rightarrow> 32 word \<times> obstacle list \<Rightarrow> nat
     \<Rightarrow> 32 word \<times> obstacle list" where
  "decorateRow s cx cy tls bd tilePx acc ty =
     foldl (decorateTile s cx cy tls bd tilePx ty) acc [0..<chunkSize s]"

text \<open>
  \<^verbatim>\<open>_decorateChunk\<close>: every object pushed has the type \<^verbatim>\<open>'tree'\<close>, so the filter
  before \<^verbatim>\<open>collisionMap.set\<close> keeps them all.
\<close>

definition decorateChunk :: "manager \<Rightarrow> int \<Rightarrow> int \<Rightarrow> nat list \<Rightarrow> biomeData \<Rightarrow> real \<Rightarrow> manager" where
  "decorateChunk s cx cy tls bd tilePx =
     (let chunkTrees =
            snd (foldl (decorateRow s cx cy tls bd tilePx) (createChunkRNG s cx cy, [])
                   [0..<chunkSize s])
      in s\<lparr>collisionMap := AList.update (key_of cx cy) chunkTrees (collisionMap s)\<rparr>)"

section \<open>Chunk cache and generation\<close>

text \<open>
  \<^verbatim>\<open>_createCanvasForTiles\<close>: without a document there is no canvas and nothing else
  happens. Otherwise missing data is synthesised, the tiles are drawn (not modelled) and
  the chunk is decorated, which writes the collision registry.
\<close>

definition createCanvasForTiles ::
  "manager \<Rightarrow> int \<Rightarrow> int \<Rightarrow> chunkData option \<Rightarrow> canvas option \<times> manager" where
  "createCanvasForTiles s cx cy data =
     (if \<not> hasDocument s then (None, s)
      else
        (let canv = \<lparr> width = real (chunkSize s) * tileSize s,
                       height_px = real (chunkSize s) * tileSize s \<rparr>;
             generated = (case data of None \<Rightarrow> generateChunkData s cx cy | Some d \<Rightarrow> d)
         in (Some canv,
             decorateChunk s cx cy (tiles generated) (biome generated) (tileSize s))))"

text \<open>
  \<^verbatim>\<open>_postProcessGeneratedChunk\<close>: \<open>data = None\<close> is the call with \<^verbatim>\<open>null\<close> that
  builds a placeholder, whose tile grid is a fresh array of zeros.
\<close>

definition postProcessGeneratedChunk ::
  "manager \<Rightarrow> int \<Rightarrow> int \<Rightarrow> chunkData option \<Rightarrow> chunk \<times> manager" where
  "postProcessGeneratedChunk s cx cy data =
     (case createCanvasForTiles s cx cy data of (rendered, s1) \<Rightarrow>
        (\<lparr> chunk_cx = cx, chunk_cy = cy,
            chunk_tiles = (case data of Some d \<Rightarrow> tiles d
                           | None \<Rightarrow> replicate (chunkSize s1 * chunkSize s1) 0),
            chunk_biome = map_option biome data,
            generatedAt = now s1,
            chunk_canvas = rendered,
            chunk_generationId = generationId s1 \<rparr>,
         s1\<lparr>generationId := generationId s1 + 1\<rparr>))"

text \<open>
  \<^verbatim>\<open>_generateChunkAsync\<close> up to its first suspension. The result is either a chunk
  that is already there, or the promise being awaited, named by the index of its job.
\<close>

datatype asyncResult = Resolved chunk | Awaiting nat

text \<open>The synchronous fallback at the end of \<^verbatim>\<open>_generateChunkAsync\<close>.\<close>

definition generateSync :: "manager \<Rightarrow> int \<Rightarrow> int \<Rightarrow> chunk \<times> manager" where
  "generateSync s cx cy =
     (let data = generateChunkData s cx cy in
      case postProcessGeneratedChunk s cx cy (Some data) of (chunk, s1) \<Rightarrow>
        (chunk, s1\<lparr>chunks := AList.update (key_of cx cy) chunk (chunks s1)\<rparr>))"

text \<open>
  What follows the two early returns: with a pool, the job is enqueued and its promise
  recorded in the generation queue before the function suspends; without one, the chunk
  is synthesised at once.
\<close>

definition startGeneration :: "manager \<Rightarrow> int \<Rightarrow> int \<Rightarrow> asyncResult \<times> manager" where
  "startGeneration s cx cy =
     (case pool s of
        Some jobs \<Rightarrow>
          (let args = \<lparr> job_cx = cx, job_cy = cy, job_chunkSize = chunkSize s,
                         job_tileSize = tileSize s, job_seedNum = seedNum s,
                         job_noiseConfig = noiseCfg s \<rparr>;
               promise = length jobs
           in (Awaiting promise,
               s\<lparr>pool := Some (jobs @ [args]),
                 generationQueue := AList.update (key_of cx cy) promise (generationQueue s)\<rparr>))
      | None \<Rightarrow>
          (case generateSync s cx cy of (chunk, s1) \<Rightarrow> (Resolved chunk, s1)))"

definition generateChunkAsync :: "manager \<Rightarrow> int \<Rightarrow> int \<Rightarrow> asyncResult \<times> manager" where
  "generateChunkAsync s cx cy =
     (let k = key_of cx cy in
      case map_of (generationQueue s) k of
        Some promise \<Rightarrow> (Awaiting promise, s)
      | None \<Rightarrow>
          (case map_of (chunks s) k of
             Some existing \<Rightarrow>
               if chunk_canvas existing \<noteq> None then (Resolved existing, s)
               else startGeneration s cx cy
           | None \<Rightarrow> startGeneration s cx cy))"

text \<open>
  The two ways the suspended function resumes: the pool delivers a result (which may
  lack its data), or the job fails or times out and the fallback runs.
\<close>

definition generationResolved :: "manager \<Rightarrow> int \<Rightarrow> int \<Rightarrow> chunkData option \<Rightarrow> chunk \<times> manager" where
  "generationResolved s cx cy result =
     (case postProcessGeneratedChunk s cx cy result of (chunk, s1) \<Rightarrow>
        (chunk, s1\<lparr>chunks := AList.update (key_of cx cy) chunk (chunks s1),
                   generationQueue := AList.delete (key_of cx cy) (generationQueue s1)\<rparr>))"

definition generationRejected :: "manager \<Rightarrow> int \<Rightarrow> int \<Rightarrow> chunk \<times> manager" where
  "generationRejected s cx cy =
     generateSync (s\<lparr>generationQueue := AList.delete (key_of cx cy) (generationQueue s)\<rparr>) cx cy"

text \<open>
  \<^verbatim>\<open>getChunk\<close>: a cached chunk with a canvas is returned as it is. Otherwise a
  placeholder is built and stored, generation is started, and the placeholder is returned.
\<close>

definition getChunk :: "manager \<Rightarrow> int \<Rightarrow> int \<Rightarrow> chunk \<times> manager" where
  "getChunk s cx cy =
     (let k = key_of cx cy;
          miss = (case postProcessGeneratedChunk s cx cy None of (placeholder, s1) \<Rightarrow>
                    (placeholder,
                     snd (generateChunkAsync
                            (s1\<lparr>chunks := AList.update k placeholder (chunks s1)\<rparr>) cx cy)))
      in case map_of (chunks s) k of
           Some chunk \<Rightarrow> if chunk_canvas chunk \<noteq> None then (chunk, s) else miss
         | None \<Rightarrow> miss)"

text \<open>
  \<^verbatim>\<open>getTileAtWorld\<close>. The chunk returned by \<^verbatim>\<open>getChunk\<close> always has a tile
  array, so the first guard of the source never fires. The last line is
  \<^verbatim>\<open>chunk.tiles[...] || 4\<close>: a read past the end and a stored 0 both give 4.
\<close>

definition getTileAtWorld :: "manager \<Rightarrow> real \<Rightarrow> real \<Rightarrow> nat \<times> manager" where
  "getTileAtWorld s x y =
     (let tx = \<lfloor>x / tileSize s\<rfloor>;
          ty = \<lfloor>y / tileSize s\<rfloor>;
          cx = \<lfloor>real_of_int tx / real (chunkSize s)\<rfloor>;
          cy = \<lfloor>real_of_int ty / real (chunkSize s)\<rfloor>
      in case getChunk s cx cy of (chunk, s1) \<Rightarrow>
        (let localX = tx - cx * int (chunkSize s1);
             localY = ty - cy * int (chunkSize s1)
         in if localX < 0 \<or> localX \<ge> int (chunkSize s1) \<or>
               localY < 0 \<or> localY \<ge> int (chunkSize s1)
            then (4, s1)
            else
              (let idx = nat (localY * int (chunkSize s1) + localX)
               in if idx < length (chunk_tiles chunk) \<and> chunk_tiles chunk ! idx \<noteq> 0
                  then (chunk_tiles chunk ! idx, s1)
                  else (4, s1))))"

text \<open>
  \<^verbatim>\<open>unloadFarChunks\<close>: the first loop collects the keys, the second deletes each
  from the chunk table and from the collision registry. (It also shrinks the canvas of
  the chunk it drops, which no later operation can observe.)
\<close>

definition toRemove :: "manager \<Rightarrow> int \<Rightarrow> int \<Rightarrow> real \<Rightarrow> key list" where
  "toRemove s centerCx centerCy radius =
     map fst (filter (\<lambda>(k, chunk).
        (let dx = \<bar>chunk_cx chunk - centerCx\<bar>;
             dy = \<bar>chunk_cy chunk - centerCy\<bar>
         in real_of_int dx > radius \<or> real_of_int dy > radius)) (chunks s))"

definition evict :: "manager \<Rightarrow> key \<Rightarrow> manager" where
  "evict s k = s\<lparr>chunks := AList.delete k (chunks s),
                 collisionMap := AList.delete k (collisionMap s)\<rparr>"

definition unloadFarChunks :: "manager \<Rightarrow> int \<Rightarrow> int \<Rightarrow> real \<Rightarrow> manager" where
  "unloadFarChunks s centerCx centerCy radius =
     foldl evict s (toRemove s centerCx centerCy radius)"

definition clearChunk :: "manager \<Rightarrow> int \<Rightarrow> int \<Rightarrow> manager" where
  "clearChunk s cx cy =
     (let k = key_of cx cy
      in s\<lparr>chunks := AList.delete k (chunks s),
           generationQueue := AList.delete k (generationQueue s),
           collisionMap := AList.delete k (collisionMap s)\<rparr>)"

text \<open>
  \<^verbatim>\<open>setSeed\<close> and \<^verbatim>\<open>setNoiseConfig\<close>. The hash \<^verbatim>\<open>seedStringToNumber\<close> lives in
  another module and is a parameter here. A partial configuration is a record of
  optional fields, merged as \<^verbatim>\<open>{ ...this.noiseConfig, ...cfg }\<close> does.
\<close>

definition setSeed :: "(string \<Rightarrow> int) \<Rightarrow> manager \<Rightarrow> string \<Rightarrow> manager" where
  "setSeed seedStringToNumber s sd =
     s\<lparr>seed := sd, seedNum := seedStringToNumber sd, chunks := [], generationQueue := []\<rparr>"

record noiseConfigPatch =
  p_scale :: "real option"
  p_octaves :: "int option"
  p_lacunarity :: "real option"
  p_gain :: "real option"
  p_heightWeight :: "real option"
  p_moistureWeight :: "real option"
  p_temperatureWeight :: "real option"

definition mergeNoiseConfig :: "noiseConfig \<Rightarrow> noiseConfigPatch \<Rightarrow> noiseConfig" where
  "mergeNoiseConfig c p =
     \<lparr> scale = (case p_scale p of Some v \<Rightarrow> v | None \<Rightarrow> scale c),
       octaves = (case p_octaves p of Some v \<Rightarrow> v | None \<Rightarrow> octaves c),
       lacunarity = (case p_lacunarity p of Some v \<Rightarrow> v | None \<Rightarrow> lacunarity c),
       gain = (case p_gain p of Some v \<Rightarrow> v | None \<Rightarrow> gain c),
       heightWeight = (case p_heightWeight p of Some v \<Rightarrow> v | None \<Rightarrow> heightWeight c),
       moistureWeight = (case p_moistureWeight p of Some v \<Rightarrow> v | None \<Rightarrow> moistureWeight c),
       temperatureWeight =
         (case p_temperatureWeight p of Some v \<Rightarrow> v | None \<Rightarrow> temperatureWeight c) \<rparr>"

definition setNoiseConfig :: "manager \<Rightarrow> noiseConfigPatch \<Rightarrow> manager" where
  "setNoiseConfig s cfg =
     s\<lparr>noiseCfg := mergeNoiseConfig (noiseCfg s) cfg, chunks := [], generationQueue := []\<rparr>"

section \<open>Collision queries\<close>

text \<open>
  A quotient of two finite Numbers: finite when the divisor is not zero, otherwise
  \<^verbatim>\<open>NaN\<close> for \<^verbatim>\<open>0 / 0\<close> and an infinity for the rest. (The divisor below is a
  square root, so a zero divisor is \<^verbatim>\<open>+0\<close>.)
\<close>

datatype jsnum = Fin real | NaN | PosInf | NegInf

definition js_div :: "real \<Rightarrow> real \<Rightarrow> jsnum" where
  "js_div a b =
     (if b \<noteq> 0 then Fin (a / b)
      else if a = 0 then NaN
      else if a > 0 then PosInf else NegInf)"

datatype 'o collisionResult =
  NotCollided
  | Collided (hit: 'o) (penetration: real) (direction_x: jsnum) (direction_y: jsnum)

text \<open>
  The loop over the obstacles of one chunk, leaving at the first hit.
  \<^verbatim>\<open>ignoreId\<close> is \<open>None\<close> for \<^verbatim>\<open>null\<close>;
  \<^verbatim>\<open>obstacle.collisionRadius || obstacle.width * 0.5\<close> takes the width when the radius
  is 0.
\<close>

fun scanObstacles ::
  "real \<Rightarrow> real \<Rightarrow> real \<Rightarrow> obstacleId option \<Rightarrow> obstacle list \<Rightarrow> obstacle collisionResult" where
  "scanObstacles x y radius ignoreId [] = NotCollided"
| "scanObstacles x y radius ignoreId (ob # obs) =
     (if ignoreId = Some (ob_id ob) then scanObstacles x y radius ignoreId obs
      else
        (let dx = ob_x ob - x;
             dy = ob_y ob - y;
             distance = sqrt (dx * dx + dy * dy);
             minDistance = radius +
               (if collisionRadius ob \<noteq> 0 then collisionRadius ob else ob_width ob * 0.5)
         in if distance < minDistance
            then Collided ob (minDistance - distance) (js_div dx distance) (js_div dy distance)
            else scanObstacles x y radius ignoreId obs))"

text \<open>The loops over the 3 by 3 block of chunks, in the order of the source.\<close>

definition offsets :: "(int \<times> int) list" where
  "offsets = List.product [-1, 0, 1] [-1, 0, 1]"

fun scanChunks ::
  "manager \<Rightarrow> real \<Rightarrow> real \<Rightarrow> real \<Rightarrow> obstacleId option \<Rightarrow> key list \<Rightarrow> obstacle collisionResult" where
  "scanChunks s x y radius ignoreId [] = NotCollided"
| "scanChunks s x y radius ignoreId (chunkKey # rest) =
     (case map_of (collisionMap s) chunkKey of
        None \<Rightarrow> scanChunks s x y radius ignoreId rest
      | Some obstacles \<Rightarrow>
          (case scanObstacles x y radius ignoreId obstacles of
             NotCollided \<Rightarrow> scanChunks s x y radius ignoreId rest
           | Collided ob p dx dy \<Rightarrow> Collided ob p dx dy))"

definition checkCollision ::
  "manager \<Rightarrow> real \<Rightarrow> real \<Rightarrow> real \<Rightarrow> obstacleId option \<Rightarrow> obstacle collisionResult" where
  "checkCollision s x y radius ignoreId =
     (let chunkX = \<lfloor>x / (real (chunkSize s) * tileSize s)\<rfloor>;
          chunkY = \<lfloor>y / (real (chunkSize s) * tileSize s)\<rfloor>
      in scanChunks s x y radius ignoreId
           (map (\<lambda>(offsetX, offsetY). key_of (chunkX + offsetX) (chunkY + offsetY)) offsets))"

text \<open>The terrain query, which reads tiles through \<^verbatim>\<open>getTileAtWorld\<close>.\<close>

record tileObstacle =
  to_type :: string
  to_tileType :: nat
  to_x :: real
  to_y :: real

definition getTileName :: "nat \<Rightarrow> string" where
  "getTileName tileType =
     (case map_of [(0, ''deep_ocean''), (1, ''ocean''), (2, ''shallow_water''), (3, ''beach''),
                   (4, ''grass''), (5, ''forest''), (6, ''dirt''), (7, ''mountain''),
                   (8, ''snow_mountain''), (9, ''road''), (10, ''building''), (11, ''ruin'')]
             tileType of
        Some n \<Rightarrow> n | None \<Rightarrow> ''unknown'')"

definition collisionTiles :: "nat list" where
  "collisionTiles = [5, 7, 8, 10, 11]"

fun scanTiles ::
  "manager \<Rightarrow> real \<Rightarrow> real \<Rightarrow> real \<Rightarrow> (int \<times> int) list \<Rightarrow> tileObstacle collisionResult \<times> manager" where
  "scanTiles s x y radius [] = (NotCollided, s)"
| "scanTiles s x y radius ((checkX, checkY) # rest) =
     (case getTileAtWorld s (of_int checkX * tileSize s) (of_int checkY * tileSize s) of
        (tileType, s1) \<Rightarrow>
          (let tileCenterX = of_int checkX * tileSize s1 + tileSize s1 / 2;
               tileCenterY = of_int checkY * tileSize s1 + tileSize s1 / 2;
               dx = tileCenterX - x;
               dy = tileCenterY - y;
               distance = sqrt (dx * dx + dy * dy)
           in if tileType \<in> set collisionTiles \<and> distance < radius + tileSize s1 * 0.4
              then (Collided \<lparr> to_type = getTileName tileType, to_tileType = tileType,
                                to_x = tileCenterX, to_y = tileCenterY \<rparr>
                      (radius + tileSize s1 * 0.4 - distance)
                      (js_div dx distance) (js_div dy distance), s1)
              else if (tileType = 0 \<or> tileType = 1) \<and> distance < radius + tileSize s1 * 0.3
              then (Collided \<lparr> to_type = ''water'', to_tileType = tileType,
                                to_x = tileCenterX, to_y = tileCenterY \<rparr>
                      (radius + tileSize s1 * 0.3 - distance)
                      (js_div dx distance) (js_div dy distance), s1)
              else scanTiles s1 x y radius rest))"

definition checkTerrainCollision ::
  "manager \<Rightarrow> real \<Rightarrow> real \<Rightarrow> real \<Rightarrow> tileObstacle collisionResult \<times> manager" where
  "checkTerrainCollision s x y radius =
     (let tileX = \<lfloor>x / tileSize s\<rfloor>;
          tileY = \<lfloor>y / tileSize s\<rfloor>
      in scanTiles s x y radius
           (map (\<lambda>(offsetX, offsetY). (tileX + offsetX, tileY + offsetY)) offsets))"

section \<open>Notions used in the statements\<close>

text \<open>
  The distance of the query point from a centre, and the reach of an obstacle
  (\<^verbatim>\<open>obstacle.collisionRadius || obstacle.width * 0.5\<close>), as \<^verbatim>\<open>checkCollision\<close>
  computes them.
\<close>

definition distanceTo :: "real \<Rightarrow> real \<Rightarrow> real \<Rightarrow> real \<Rightarrow> real" where
  "distanceTo px py x y = sqrt ((px - x) * (px - x) + (py - y) * (py - y))"

definition obstacleReach :: "obstacle \<Rightarrow> real" where
  "obstacleReach ob = (if collisionRadius ob \<noteq> 0 then collisionRadius ob else ob_width ob * 0.5)"


text \<open>
  The specification's words for a direction: a vector of length one, and the unit
  vector that points from a point \<open>a\<close> to a different point \<open>b\<close>.
\<close>

definition unit_length :: "jsnum \<Rightarrow> jsnum \<Rightarrow> bool" where
  "unit_length dx dy = (case (dx, dy) of (Fin a, Fin b) \<Rightarrow> a * a + b * b = 1 | _ \<Rightarrow> False)"

definition points_from_to :: "real \<times> real \<Rightarrow> real \<times> real \<Rightarrow> jsnum \<Rightarrow> jsnum \<Rightarrow> bool" where
  "points_from_to a b dx dy =
     (let d = sqrt ((fst b - fst a) * (fst b - fst a) + (snd b - snd a) * (snd b - snd a))
      in dx = Fin ((fst b - fst a) / d) \<and> dy = Fin ((snd b - snd a) / d))"

section \<open>Example states\<close>

text \<open>
  A manager with the default noise configuration, chunks of 4 by 4 tiles of 32 pixels,
  no pool and no document.
\<close>

definition example_manager :: manager where
  "example_manager = \<lparr> chunkSize = 4, tileSize = 32, seed = ''test-seed'', seedNum = 0,
     noiseCfg = \<lparr> scale = 0.015, octaves = 5, lacunarity = 2.1, gain = 0.45,
       heightWeight = 1.2, moistureWeight = 0.8, temperatureWeight = 0.6 \<rparr>,
     chunks = [], collisionMap = [], generationQueue = [], generationId = 0,
     pool = None, hasDocument = False, now = 0 \<rparr>"

text \<open>
  The tree that \<^verbatim>\<open>_decorateChunk\<close> registers on the grass tile \<open>(0, 0)\<close> of chunk
  \<open>(0, 0)\<close> for a roll of 0.04: it stands on the centre \<open>(16, 16)\<close> of that tile.
\<close>

definition example_tree :: obstacle where
  "example_tree = makeTree example_manager 0 0 32 0 0 (drawTree (32 * 0.9) (0.6 + 0.04))"

text \<open>
  A complete chunk \<open>(0, 0)\<close>: grass everywhere but ocean on tile \<open>(3, 0)\<close>, forest on
  tile \<open>(1, 1)\<close> and deep ocean on tile \<open>(3, 3)\<close>.
\<close>

definition example_chunk :: chunk where
  "example_chunk = \<lparr> chunk_cx = 0, chunk_cy = 0,
     chunk_tiles = [4, 4, 4, 1,
                    4, 5, 4, 4,
                    4, 4, 4, 4,
                    4, 4, 4, 0],
     chunk_biome = Some \<lparr> height = replicate 16 0.4, moisture = replicate 16 0.6,
                          temperature = replicate 16 0.3 \<rparr>,
     generatedAt = 0,
     chunk_canvas = Some \<lparr> width = 128, height_px = 128 \<rparr>,
     chunk_generationId = 0 \<rparr>"

definition far_chunk :: chunk where
  "far_chunk = example_chunk \<lparr> chunk_cx := 3, chunk_cy := 0 \<rparr>"

text \<open>
  A manager in a browser that holds that chunk, for which no tree was rolled: the entry
  of the chunk in the collision registry is empty.
\<close>

definition terrain_manager :: manager where
  "terrain_manager = example_manager \<lparr> chunks := [((0, 0), example_chunk)],
     collisionMap := [((0, 0), [])], hasDocument := True, generationId := 1 \<rparr>"

text \<open>
  A manager that holds two chunks, the tree of chunk \<open>(0, 0)\<close> and one of chunk
  \<open>(3, 0)\<close> in its collision registry, and one job in flight for chunk \<open>(1, 0)\<close>.
\<close>

definition busy_manager :: manager where
  "busy_manager = example_manager \<lparr>
     chunks := [((0, 0), example_chunk), ((3, 0), far_chunk)],
     collisionMap := [((0, 0), [example_tree]),
                      ((3, 0), [makeTree example_manager 3 0 32 0 0 (drawTree (32 * 0.9) (0.6 + 0.02))])],
     generationQueue := [((1, 0), 0)],
     generationId := 2,
     pool := Some [\<lparr> job_cx = 1, job_cy = 0, job_chunkSize = 4, job_tileSize = 32,
                     job_seedNum = 0, job_noiseConfig = noiseCfg example_manager \<rparr>],
     hasDocument := True \<rparr>"

section \<open>Determinism of the synthesis\<close>

lemma generateTile_frame:
  assumes "chunkSize s = chunkSize s'" "seedNum s = seedNum s'" "noiseCfg s = noiseCfg s'"
  shows "generateTile s cx cy = generateTile s' cx cy"
proof -
  have "generateTile s cx cy ty tx d = generateTile s' cx cy ty tx d" for ty tx d
    using assms
    by (simp add: generateTile_def tileTypeAt_def heightAt_def moistureAt_def
        temperatureAt_def ridgeAt_def featureNoiseAt_def worldX_def worldY_def)
  then show ?thesis by (intro ext)
qed

lemma generateRow_frame:
  assumes "chunkSize s = chunkSize s'" "seedNum s = seedNum s'" "noiseCfg s = noiseCfg s'"
  shows "generateRow s cx cy = generateRow s' cx cy"
  using assms generateTile_frame [OF assms, of cx cy]
  by (intro ext) (simp add: generateRow_def)

text \<open>
  C1. \<^verbatim>\<open>_generateChunkData\<close> returns its grids without writing to the manager, and
  what it returns depends on the manager through \<open>chunkSize\<close>, \<open>seedNum\<close> and the noise
  configuration alone: two managers that agree on these three, whatever their caches,
  queues, collision registries, pools and clocks, produce equal tile grids and equal
  height, moisture and temperature fields for every chunk.
\<close>

theorem C1_generateChunkData_deterministic:
  assumes "chunkSize s = chunkSize s'" and "seedNum s = seedNum s'"
    and "noiseCfg s = noiseCfg s'"
  shows "generateChunkData s cx cy = generateChunkData s' cx cy"
  using assms generateRow_frame [OF assms, of cx cy]
  by (simp add: generateChunkData_def)

text \<open>
  The instance: the busy manager, and the same manager after chunk \<open>(0, 0)\<close> has been
  cleared from the cache, the queue and the registry.
\<close>

theorem C1_generateChunkData_deterministic_witness:
  "chunkSize busy_manager = chunkSize (clearChunk busy_manager 0 0) \<and>
   seedNum busy_manager = seedNum (clearChunk busy_manager 0 0) \<and>
   noiseCfg busy_manager = noiseCfg (clearChunk busy_manager 0 0) \<and>
   chunks (clearChunk busy_manager 0 0) \<noteq> chunks busy_manager \<and>
   generateChunkData busy_manager 0 0 = generateChunkData (clearChunk busy_manager 0 0) 0 0"
proof -
  have h: "chunkSize busy_manager = chunkSize (clearChunk busy_manager 0 0)"
    "seedNum busy_manager = seedNum (clearChunk busy_manager 0 0)"
    "noiseCfg busy_manager = noiseCfg (clearChunk busy_manager 0 0)"
    by (simp_all add: clearChunk_def Let_def)
  have "chunks (clearChunk busy_manager 0 0) \<noteq> chunks busy_manager"
    by (simp add: clearChunk_def Let_def busy_manager_def key_of_def AList.delete_eq)
  with h C1_generateChunkData_deterministic [OF h, of 0 0] show ?thesis by simp
qed

section \<open>The tile grid and the biome thresholds\<close>

lemma tiles_generateTile:
  "tiles (generateTile s cx cy ty tx d) =
     (tiles d)[ty * chunkSize s + tx := tileTypeAt s cx cy tx ty]"
  by (simp add: generateTile_def Let_def)

lemma foldl_update_length:
  "length (foldl (\<lambda>xs j. xs[b + j := f j]) xs [0..<n]) = length xs"
  by (induction n) simp_all

lemma foldl_update_nth:
  "i < length xs \<Longrightarrow>
   foldl (\<lambda>xs j. xs[b + j := f j]) xs [0..<n] ! i =
     (if b \<le> i \<and> i < b + n then f (i - b) else xs ! i)"
proof (induction n)
  case 0
  then show ?case by auto
next
  case (Suc n)
  show ?case
  proof (cases "i = b + n")
    case True
    with Suc.prems show ?thesis
      by (simp add: foldl_update_length)
  next
    case False
    with Suc show ?thesis
      by (auto simp: foldl_update_length)
  qed
qed

lemma tiles_generateRow:
  "tiles (generateRow s cx cy d ty) =
     foldl (\<lambda>xs tx. xs[ty * chunkSize s + tx := tileTypeAt s cx cy tx ty]) (tiles d)
       [0..<chunkSize s]"
proof -
  have "tiles (foldl (\<lambda>d tx. generateTile s cx cy ty tx d) d [0..<n]) =
     foldl (\<lambda>xs tx. xs[ty * chunkSize s + tx := tileTypeAt s cx cy tx ty]) (tiles d) [0..<n]"
    for n
    by (induction n) (simp_all add: tiles_generateTile)
  then show ?thesis by (simp add: generateRow_def)
qed

lemma rows_length:
  "length (tiles (foldl (generateRow s cx cy) d [0..<n])) = length (tiles d)"
  by (induction n) (simp_all add: tiles_generateRow foldl_update_length)

text \<open>After the first \<open>n\<close> rows, the cells of these rows hold their tile types.\<close>

lemma rows_nth:
  "i < length (tiles d) \<Longrightarrow>
   tiles (foldl (generateRow s cx cy) d [0..<n]) ! i =
     (if i < n * chunkSize s then tileTypeAt s cx cy (i mod chunkSize s) (i div chunkSize s)
      else tiles d ! i)"
proof (induction n)
  case 0
  then show ?case by simp
next
  case (Suc n)
  let ?sz = "chunkSize s"
  show ?case
  proof (cases "n * ?sz \<le> i \<and> i < n * ?sz + ?sz")
    case True
    from True have d: "i div ?sz = n"
      by (intro div_nat_eqI) (simp_all add: mult.commute)
    have "i mod ?sz = i - (i div ?sz) * ?sz"
      by (simp add: minus_div_mult_eq_mod)
    with d have m: "i mod ?sz = i - n * ?sz" by simp
    from True Suc.prems show ?thesis
      by (simp add: tiles_generateRow foldl_update_nth rows_length d m)
  next
    case False
    with Suc show ?thesis
      by (auto simp: tiles_generateRow foldl_update_nth rows_length)
  qed
qed

lemma generateChunkData_tile:
  assumes "tx < chunkSize s" "ty < chunkSize s"
  shows "tiles (generateChunkData s cx cy) ! (ty * chunkSize s + tx) = tileTypeAt s cx cy tx ty"
proof -
  let ?sz = "chunkSize s"
  from assms have "Suc ty * ?sz \<le> ?sz * ?sz" by (intro mult_le_mono1) simp
  with assms have lt: "ty * ?sz + tx < ?sz * ?sz" by simp
  then have "tiles (generateChunkData s cx cy) ! (ty * ?sz + tx) =
     tileTypeAt s cx cy ((ty * ?sz + tx) mod ?sz) ((ty * ?sz + tx) div ?sz)"
    using rows_nth [of "ty * ?sz + tx" "emptyChunkData ?sz" s cx cy ?sz]
    by (simp add: generateChunkData_def emptyChunkData_def)
  with assms show ?thesis by simp
qed

lemma classifyBiome_bands:
  "(h < 0.06 \<longrightarrow> classifyBiome h m t r = 0) \<and>
   (0.06 \<le> h \<and> h < 0.09 \<longrightarrow> classifyBiome h m t r = 1) \<and>
   (0.09 \<le> h \<and> h < 0.12 \<longrightarrow> classifyBiome h m t r = 2) \<and>
   (0.12 \<le> h \<and> h < 0.16 \<longrightarrow> classifyBiome h m t r = 3) \<and>
   (0.16 \<le> h \<and> h < 0.65 \<longrightarrow>
      classifyBiome h m t r = (if m > 0.7 then 5 else if m < 0.3 then 6 else 4)) \<and>
   (0.65 \<le> h \<and> h < 0.82 \<longrightarrow>
      classifyBiome h m t r = (if r > 0.6 then 7 else if t > 0.6 then 6 else 4)) \<and>
   (0.82 \<le> h \<longrightarrow> classifyBiome h m t r = (if h > 0.88 then 8 else 7))"
  by (simp add: classifyBiome_def)

text \<open>
  C8. For every tile \<open>(tx, ty)\<close> of a chunk, the tile type that \<^verbatim>\<open>_generateChunkData\<close>
  stores at \<open>ty * size + tx\<close> is the biome classification of the tile's weighted height,
  moisture, temperature and ridge values, passed through the infrastructure overlay.
  The classification follows the ordered thresholds, first match first: below 0.12 the
  water tiers (deep ocean below 0.06, ocean below 0.09, else shallow water), below 0.16
  beach, below 0.65 forest when moisture exceeds 0.7, dirt when it is below 0.3 and
  grass otherwise, below 0.82 mountain when the ridge value exceeds 0.6 and otherwise
  dirt when temperature exceeds 0.6 and else grass, and from 0.82 on snow above 0.88 and
  mountain otherwise.
\<close>

theorem C8_biome_thresholds:
  "(tx < chunkSize s \<and> ty < chunkSize s \<longrightarrow>
      tiles (generateChunkData s cx cy) ! (ty * chunkSize s + tx) =
        applyInfrastructure (featureNoiseAt s cx cy tx ty)
          (heightAt s cx cy tx ty) (moistureAt s cx cy tx ty) (temperatureAt s cx cy tx ty)
          (classifyBiome (heightAt s cx cy tx ty) (moistureAt s cx cy tx ty)
             (temperatureAt s cx cy tx ty) (ridgeAt s cx cy tx ty))) \<and>
   (h < 0.06 \<longrightarrow> classifyBiome h m t r = 0) \<and>
   (0.06 \<le> h \<and> h < 0.09 \<longrightarrow> classifyBiome h m t r = 1) \<and>
   (0.09 \<le> h \<and> h < 0.12 \<longrightarrow> classifyBiome h m t r = 2) \<and>
   (0.12 \<le> h \<and> h < 0.16 \<longrightarrow> classifyBiome h m t r = 3) \<and>
   (0.16 \<le> h \<and> h < 0.65 \<longrightarrow>
      classifyBiome h m t r = (if m > 0.7 then 5 else if m < 0.3 then 6 else 4)) \<and>
   (0.65 \<le> h \<and> h < 0.82 \<longrightarrow>
      classifyBiome h m t r = (if r > 0.6 then 7 else if t > 0.6 then 6 else 4)) \<and>
   (0.82 \<le> h \<longrightarrow> classifyBiome h m t r = (if h > 0.88 then 8 else 7))"
  using generateChunkData_tile [of tx s ty cx cy] classifyBiome_bands [of h m t r]
  by (simp add: tileTypeAt_def)

text \<open>One height in each of the seven bands, on tile \<open>(1, 2)\<close> of the example manager.\<close>

theorem C8_biome_thresholds_witness:
  "(1 < chunkSize example_manager \<and> 2 < chunkSize example_manager) \<and>
   classifyBiome 0.05 0.5 0.5 0.5 = 0 \<and>
   classifyBiome 0.07 0.5 0.5 0.5 = 1 \<and>
   classifyBiome 0.10 0.5 0.5 0.5 = 2 \<and>
   classifyBiome 0.14 0.5 0.5 0.5 = 3 \<and>
   classifyBiome 0.50 0.8 0.5 0.5 = 5 \<and>
   classifyBiome 0.50 0.2 0.5 0.5 = 6 \<and>
   classifyBiome 0.50 0.5 0.5 0.5 = 4 \<and>
   classifyBiome 0.70 0.5 0.5 0.7 = 7 \<and>
   classifyBiome 0.70 0.5 0.7 0.5 = 6 \<and>
   classifyBiome 0.70 0.5 0.5 0.5 = 4 \<and>
   classifyBiome 0.85 0.5 0.5 0.5 = 7 \<and>
   classifyBiome 0.90 0.5 0.5 0.5 = 8 \<and>
   tiles (generateChunkData example_manager 0 0) ! (2 * chunkSize example_manager + 1) =
     applyInfrastructure (featureNoiseAt example_manager 0 0 1 2)
       (heightAt example_manager 0 0 1 2) (moistureAt example_manager 0 0 1 2)
       (temperatureAt example_manager 0 0 1 2)
       (classifyBiome (heightAt example_manager 0 0 1 2) (moistureAt example_manager 0 0 1 2)
          (temperatureAt example_manager 0 0 1 2) (ridgeAt example_manager 0 0 1 2))"
proof -
  have sz: "1 < chunkSize example_manager \<and> 2 < chunkSize example_manager"
    by (simp add: example_manager_def)
  note c = C8_biome_thresholds [of 1 example_manager 2 0 0]
  from sz c [of "0.05" "0.5" "0.5" "0.5"] c [of "0.07" "0.5" "0.5" "0.5"] c [of "0.10" "0.5" "0.5" "0.5"]
    c [of "0.14" "0.5" "0.5" "0.5"] c [of "0.50" "0.8" "0.5" "0.5"] c [of "0.50" "0.2" "0.5" "0.5"]
    c [of "0.50" "0.5" "0.5" "0.5"] c [of "0.70" "0.5" "0.5" "0.7"] c [of "0.70" "0.5" "0.7" "0.5"]
    c [of "0.70" "0.5" "0.5" "0.5"] c [of "0.85" "0.5" "0.5" "0.5"] c [of "0.90" "0.5" "0.5" "0.5"]
  show ?thesis by simp
qed

section \<open>Properties of the decoration generator\<close>

lemma rng_value_bounds: "0 \<le> rng_value st \<and> rng_value st \<le> 1"
proof -
  have "unat (st AND 0x7fffffff) \<le> unat (0x7fffffff :: 32 word)"
    by (rule word_and_le1 [THEN word_le_nat_alt [THEN iffD1]])
  then have le: "unat (st AND 0x7fffffff) \<le> 2147483647" by simp
  define k where "k = unat (st AND 0x7fffffff)"
  from le have "real k \<le> 2147483647" unfolding k_def by linarith
  moreover have "rng_value st = real k / 2147483647"
    unfolding k_def rng_value_def by simp
  ultimately show ?thesis by simp
qed

lemma draws_bounds: "v \<in> set (draws n st) \<Longrightarrow> 0 \<le> v \<and> v \<le> 1"
proof (induction n arbitrary: st)
  case 0
  then show ?case by simp
next
  case (Suc n)
  then show ?case
    using rng_value_bounds [of "rng_step st"]
    by (auto simp: rng_def Let_def)
qed

text \<open>
  Whatever the seed, some chunk has a generator whose first draw is exactly 1: since
  \<open>131 * (-3) + 197 * 2 = 1\<close>, the start value \<open>1191975031\<close> can be reached from
  every \<open>seedNum\<close>.
\<close>

lemma first_draw_one_for_every_seed:
  "fst (rng (createChunkRNG s (- 3 * (1191975031 - seedNum s))
                              (2 * (1191975031 - seedNum s)))) = 1"
proof -
  have "seedNum s + (- 3 * (1191975031 - seedNum s)) * 131 +
          (2 * (1191975031 - seedNum s)) * 197 = 1191975031"
    by (simp add: algebra_simps)
  then have "createChunkRNG s (- 3 * (1191975031 - seedNum s)) (2 * (1191975031 - seedNum s))
        = 1191975031"
    unfolding createChunkRNG_def by simp
  then show ?thesis
    by (simp add: rng_def rng_step_def rng_value_def)
qed

text \<open>
  C9, as stated, fails: with \<open>seedNum = 0\<close> the generator of chunk \<open>(9099031, 10)\<close> starts
  at \<open>1191975031\<close>, the first draw leaves the state \<open>0x7fffffff\<close>, and the value returned
  is \<open>0x7fffffff / 0x7fffffff = 1\<close>, which is not strictly below 1.
\<close>

theorem C9_first_draw_is_one:
  "fst (rng (createChunkRNG example_manager 9099031 10)) = 1 \<and>
   \<not> fst (rng (createChunkRNG example_manager 9099031 10)) < 1"
  by (simp add: rng_def rng_step_def rng_value_def createChunkRNG_def example_manager_def)

text \<open>
  C9, amended: every value drawn from the generator of a chunk lies in the closed
  interval from 0 to 1.
\<close>

theorem C9_draws_in_closed_unit_interval:
  "\<forall>v \<in> set (draws n (createChunkRNG s cx cy)). 0 \<le> v \<and> v \<le> 1"
  using draws_bounds by blast

text \<open>The instance: the first draw of the generator of chunk \<open>(1, 0)\<close>.\<close>

theorem C9_draws_witness:
  "rng_value (rng_step (createChunkRNG example_manager 1 0))
     \<in> set (draws 1 (createChunkRNG example_manager 1 0)) \<and>
   0 \<le> rng_value (rng_step (createChunkRNG example_manager 1 0)) \<and>
   rng_value (rng_step (createChunkRNG example_manager 1 0)) \<le> 1"
proof -
  have m: "rng_value (rng_step (createChunkRNG example_manager 1 0))
     \<in> set (draws 1 (createChunkRNG example_manager 1 0))"
    by (simp add: rng_def Let_def)
  from m C9_draws_in_closed_unit_interval [of 1 example_manager 1 0] show ?thesis
    by blast
qed

section \<open>The generation queue\<close>








section \<open>Eviction\<close>

lemma chunks_foldl_evict:
  "chunks (foldl evict s ks) = filter (\<lambda>(k, c). k \<notin> set ks) (chunks s)"
proof (induction ks arbitrary: s)
  case Nil
  then show ?case by simp
next
  case (Cons a ks)
  have "filter (\<lambda>(k, c). k \<notin> set ks) (AList.delete a (chunks s)) =
        filter (\<lambda>(k, c). k \<notin> set (a # ks)) (chunks s)"
    by (auto simp: AList.delete_eq intro: filter_cong)
  with Cons show ?case by (simp add: evict_def)
qed

lemma collisionMap_foldl_evict:
  "collisionMap (foldl evict s ks) = filter (\<lambda>(k, c). k \<notin> set ks) (collisionMap s)"
proof (induction ks arbitrary: s)
  case Nil
  then show ?case by simp
next
  case (Cons a ks)
  have "filter (\<lambda>(k, c). k \<notin> set ks) (AList.delete a (collisionMap s)) =
        filter (\<lambda>(k, c). k \<notin> set (a # ks)) (collisionMap s)"
    by (auto simp: AList.delete_eq intro: filter_cong)
  with Cons show ?case by (simp add: evict_def)
qed

lemma map_of_filter_out:
  "k \<in> A \<Longrightarrow> map_of (filter (\<lambda>(k, c). k \<notin> A) xs) k = None"
  by (induction xs) auto

text \<open>
  C7. After \<^verbatim>\<open>unloadFarChunks(centerCx, centerCy, radius)\<close> every chunk left in the
  cache lies within Chebyshev distance \<open>radius\<close> of the centre, and every key that was
  in the cache before and is not any more has no entry in the collision registry.
\<close>

theorem C7_unloadFarChunks:
  "(\<forall>(k, c) \<in> set (chunks (unloadFarChunks s centerCx centerCy radius)).
      real_of_int (max \<bar>chunk_cx c - centerCx\<bar> \<bar>chunk_cy c - centerCy\<bar>) \<le> radius) \<and>
   (\<forall>k \<in> fst ` set (chunks s) -
           fst ` set (chunks (unloadFarChunks s centerCx centerCy radius)).
      map_of (collisionMap (unloadFarChunks s centerCx centerCy radius)) k = None)"
proof (intro conjI ballI)
  let ?R = "toRemove s centerCx centerCy radius"
  fix p assume p: "p \<in> set (chunks (unloadFarChunks s centerCx centerCy radius))"
  obtain k c where kc: "p = (k, c)" by (cases p)
  from p kc have in_s: "(k, c) \<in> set (chunks s)" and notin: "k \<notin> set ?R"
    by (auto simp: unloadFarChunks_def chunks_foldl_evict)
  have "\<not> (real_of_int \<bar>chunk_cx c - centerCx\<bar> > radius \<or>
           real_of_int \<bar>chunk_cy c - centerCy\<bar> > radius)"
  proof
    assume "real_of_int \<bar>chunk_cx c - centerCx\<bar> > radius \<or>
            real_of_int \<bar>chunk_cy c - centerCy\<bar> > radius"
    with in_s have "k \<in> set ?R"
      by (force simp: toRemove_def Let_def)
    with notin show False by contradiction
  qed
  then show "case p of (k, c) \<Rightarrow>
      real_of_int (max \<bar>chunk_cx c - centerCx\<bar> \<bar>chunk_cy c - centerCy\<bar>) \<le> radius"
    by (simp add: kc max_def)
next
  let ?R = "toRemove s centerCx centerCy radius"
  fix k assume k: "k \<in> fst ` set (chunks s) -
     fst ` set (chunks (unloadFarChunks s centerCx centerCy radius))"
  have "k \<in> set ?R"
  proof (rule ccontr)
    assume "k \<notin> set ?R"
    with k show False
      by (force simp: unloadFarChunks_def chunks_foldl_evict)
  qed
  then show "map_of (collisionMap (unloadFarChunks s centerCx centerCy radius)) k = None"
    by (simp add: unloadFarChunks_def collisionMap_foldl_evict map_of_filter_out)
qed

lemma unload_busy_eval:
  "chunks (unloadFarChunks busy_manager 0 0 1) = [((0, 0), example_chunk)]"
  "collisionMap (unloadFarChunks busy_manager 0 0 1) = [((0, 0), [example_tree])]"
  by (simp_all add: unloadFarChunks_def toRemove_def busy_manager_def example_manager_def
      far_chunk_def example_chunk_def evict_def AList.delete_eq)

text \<open>
  The instance: around \<open>(0, 0)\<close> with radius 1 the busy manager keeps chunk \<open>(0, 0)\<close>
  and evicts chunk \<open>(3, 0)\<close> together with its tree.
\<close>

theorem C7_unloadFarChunks_witness:
  "chunks (unloadFarChunks busy_manager 0 0 1) = [((0, 0), example_chunk)] \<and>
   (3, 0) \<in> fst ` set (chunks busy_manager) -
             fst ` set (chunks (unloadFarChunks busy_manager 0 0 1)) \<and>
   map_of (collisionMap busy_manager) (3, 0) \<noteq> None \<and>
   real_of_int (max \<bar>chunk_cx example_chunk - 0\<bar> \<bar>chunk_cy example_chunk - 0\<bar>) \<le> 1 \<and>
   map_of (collisionMap (unloadFarChunks busy_manager 0 0 1)) (3, 0) = None"
proof -
  have a: "chunks (unloadFarChunks busy_manager 0 0 1) = [((0, 0), example_chunk)]"
    by (rule unload_busy_eval)
  have b: "(3, 0) \<in> fst ` set (chunks busy_manager) -
             fst ` set (chunks (unloadFarChunks busy_manager 0 0 1))"
    by (simp add: a) (simp add: busy_manager_def)
  have c: "map_of (collisionMap busy_manager) (3, 0) \<noteq> None"
    by (simp add: busy_manager_def)
  from a b c C7_unloadFarChunks [of busy_manager 0 0 1] show ?thesis
    by (simp del: of_int_max)
qed

section \<open>Changing the seed or the noise configuration\<close>

lemma example_tree_eval:
  "example_tree = \<lparr> ob_width = 25.8048, ob_height = 47.9232, ob_x = 16, ob_y = 16,
     ob_id = TreeId (0, 0) 0 0, collisionRadius = 19.16928 \<rparr>"
  by (simp add: example_tree_def makeTree_def drawTree_def example_manager_def key_of_def Let_def)

lemma offsets_eval:
  "offsets = [(-1, -1), (-1, 0), (-1, 1), (0, -1), (0, 0), (0, 1), (1, -1), (1, 0), (1, 1)]"
  by (simp add: offsets_def)

lemma scanChunks_cong:
  "collisionMap s = collisionMap s' \<Longrightarrow>
   scanChunks s x y radius ig ks = scanChunks s' x y radius ig ks"
  by (induction ks) (auto split: option.splits collisionResult.splits)

lemma checkCollision_cong:
  assumes "collisionMap s = collisionMap s'" "chunkSize s = chunkSize s'"
    "tileSize s = tileSize s'"
  shows "checkCollision s x y radius ig = checkCollision s' x y radius ig"
  unfolding checkCollision_def assms(2,3) Let_def
  by (rule scanChunks_cong [OF assms(1)])

lemma busy_collision_eval:
  "checkCollision busy_manager 15 16 1 None = Collided example_tree 19.16928 (Fin 1) (Fin 0)"
  by (simp add: checkCollision_def busy_manager_def example_manager_def offsets_eval key_of_def
      example_tree_eval js_div_def)

text \<open>
  C5, evaluated on the busy manager: \<^verbatim>\<open>setSeed\<close> and \<^verbatim>\<open>setNoiseConfig\<close> empty the
  chunk cache and the generation queue, and leave the collision registry as it was. The
  tree registered for chunk \<open>(0, 0)\<close> under the old seed is still there and still
  collides.
\<close>

theorem C5_collision_registry_survives:
  "chunks (setSeed seedStringToNumber busy_manager ''other'') = [] \<and>
   generationQueue (setSeed seedStringToNumber busy_manager ''other'') = [] \<and>
   collisionMap (setSeed seedStringToNumber busy_manager ''other'') = collisionMap busy_manager \<and>
   map_of (collisionMap (setSeed seedStringToNumber busy_manager ''other'')) (0, 0) =
     Some [example_tree] \<and>
   checkCollision (setSeed seedStringToNumber busy_manager ''other'') 15 16 1 None =
     Collided example_tree 19.16928 (Fin 1) (Fin 0) \<and>
   chunks (setNoiseConfig busy_manager cfg) = [] \<and>
   generationQueue (setNoiseConfig busy_manager cfg) = [] \<and>
   map_of (collisionMap (setNoiseConfig busy_manager cfg)) (0, 0) = Some [example_tree]"
proof -
  have "checkCollision (setSeed seedStringToNumber busy_manager ''other'') 15 16 1 None =
        checkCollision busy_manager 15 16 1 None"
    by (rule checkCollision_cong) (simp_all add: setSeed_def)
  then show ?thesis
    by (simp add: busy_collision_eval) (simp add: setSeed_def setNoiseConfig_def busy_manager_def)
qed


section \<open>Object collisions\<close>

lemma scanObstacles_Cons:
  "scanObstacles x y radius ig (ob # obs) =
     (if ig = Some (ob_id ob) then scanObstacles x y radius ig obs
      else if distanceTo (ob_x ob) (ob_y ob) x y < radius + obstacleReach ob
      then Collided ob (radius + obstacleReach ob - distanceTo (ob_x ob) (ob_y ob) x y)
             (js_div (ob_x ob - x) (distanceTo (ob_x ob) (ob_y ob) x y))
             (js_div (ob_y ob - y) (distanceTo (ob_x ob) (ob_y ob) x y))
      else scanObstacles x y radius ig obs)"
  by (simp add: Let_def obstacleReach_def distanceTo_def)

lemma scanObstacles_hit:
  "scanObstacles x y radius ig obs = Collided ob p dx dy \<Longrightarrow>
   ob \<in> set obs \<and> ig \<noteq> Some (ob_id ob) \<and>
   distanceTo (ob_x ob) (ob_y ob) x y < radius + obstacleReach ob \<and>
   p = radius + obstacleReach ob - distanceTo (ob_x ob) (ob_y ob) x y \<and>
   dx = js_div (ob_x ob - x) (distanceTo (ob_x ob) (ob_y ob) x y) \<and>
   dy = js_div (ob_y ob - y) (distanceTo (ob_x ob) (ob_y ob) x y)"
proof (induction obs)
  case Nil
  then show ?case by simp
next
  case (Cons a obs)
  then show ?case
    by (auto simp: scanObstacles_Cons simp del: scanObstacles.simps(2) split: if_splits)
qed


lemma scanChunks_hit:
  "scanChunks s x y radius ig ks = Collided ob p dx dy \<Longrightarrow>
   \<exists>k \<in> set ks. \<exists>obs. map_of (collisionMap s) k = Some obs \<and>
     scanObstacles x y radius ig obs = Collided ob p dx dy"
  by (induction ks) (auto split: option.splits collisionResult.splits)


lemma unit_quotients:
  fixes a b :: real
  assumes "a \<noteq> 0 \<or> b \<noteq> 0"
  shows "0 < sqrt (a * a + b * b)"
    and "(a / sqrt (a * a + b * b)) * (a / sqrt (a * a + b * b)) +
         (b / sqrt (a * a + b * b)) * (b / sqrt (a * a + b * b)) = 1"
proof -
  define d where "d = sqrt (a * a + b * b)"
  from assms have pos: "0 < a * a + b * b"
    by (metis add_pos_nonneg add_nonneg_pos zero_le_square not_real_square_gt_zero)
  then have dpos: "0 < d" by (simp add: d_def)
  have dd: "d * d = a * a + b * b"
    using pos by (simp add: d_def)
  have "(a / d) * (a / d) + (b / d) * (b / d) = (a * a + b * b) / (d * d)"
    by (simp add: add_divide_distrib)
  also have "\<dots> = 1" using assms dd by auto
  finally have "(a / d) * (a / d) + (b / d) * (b / d) = 1" .
  with dpos show "0 < sqrt (a * a + b * b)"
    and "(a / sqrt (a * a + b * b)) * (a / sqrt (a * a + b * b)) +
         (b / sqrt (a * a + b * b)) * (b / sqrt (a * a + b * b)) = 1"
    by (simp_all add: d_def)
qed

text \<open>
  C2, as stated, fails: the tree stands at \<open>(16, 16)\<close>, the query point \<open>(15, 16)\<close> is
  one pixel to its left, and the direction returned is \<open>(1, 0)\<close>, which points from the
  query point to the tree. The unit vector from the tree to the query point is
  \<open>(-1, 0)\<close>.
\<close>

theorem C2_direction_points_at_obstacle:
  "checkCollision busy_manager 15 16 1 None = Collided example_tree 19.16928 (Fin 1) (Fin 0) \<and>
   distanceTo (ob_x example_tree) (ob_y example_tree) 15 16 = 1 \<and>
   \<not> points_from_to (ob_x example_tree, ob_y example_tree) (15, 16) (Fin 1) (Fin 0)"
  by (simp add: busy_collision_eval) (simp add: points_from_to_def distanceTo_def example_tree_eval)

text \<open>
  C2, amended: when \<^verbatim>\<open>checkCollision\<close> reports a collision with an obstacle whose
  centre is not the query point, the direction returned has length one and points from
  the query point to the obstacle.
\<close>

theorem C2_direction_unit_towards_obstacle:
  assumes "checkCollision s x y radius ig = Collided ob p dx dy"
    and "ob_x ob \<noteq> x \<or> ob_y ob \<noteq> y"
  shows "unit_length dx dy \<and> points_from_to (x, y) (ob_x ob, ob_y ob) dx dy"
proof -
  from assms(1) obtain obs where "scanObstacles x y radius ig obs = Collided ob p dx dy"
    unfolding checkCollision_def Let_def by (blast dest: scanChunks_hit)
  then have dx: "dx = js_div (ob_x ob - x) (distanceTo (ob_x ob) (ob_y ob) x y)"
    and dy: "dy = js_div (ob_y ob - y) (distanceTo (ob_x ob) (ob_y ob) x y)"
    by (auto dest: scanObstacles_hit)
  from assms(2) have nz: "ob_x ob - x \<noteq> 0 \<or> ob_y ob - y \<noteq> 0" by auto
  note u = unit_quotients [OF nz]
  from u(1) assms(2) have "distanceTo (ob_x ob) (ob_y ob) x y \<noteq> 0"
    by (auto simp: distanceTo_def)
  with dx dy have "dx = Fin ((ob_x ob - x) / distanceTo (ob_x ob) (ob_y ob) x y)"
    and "dy = Fin ((ob_y ob - y) / distanceTo (ob_x ob) (ob_y ob) x y)"
    by (simp_all add: js_div_def)
  with u(2) show ?thesis
    by (simp add: unit_length_def points_from_to_def distanceTo_def)
qed

theorem C2_direction_unit_towards_obstacle_witness:
  "checkCollision busy_manager 15 16 1 None = Collided example_tree 19.16928 (Fin 1) (Fin 0) \<and>
   ob_x example_tree \<noteq> 15 \<and>
   unit_length (Fin 1) (Fin 0) \<and>
   points_from_to (15, 16) (ob_x example_tree, ob_y example_tree) (Fin 1) (Fin 0)"
proof -
  have h1: "checkCollision busy_manager 15 16 1 None =
            Collided example_tree 19.16928 (Fin 1) (Fin 0)"
    by (rule busy_collision_eval)
  have h2: "ob_x example_tree \<noteq> 15"
    by (simp add: example_tree_eval)
  from h2 have h3: "ob_x example_tree \<noteq> 15 \<or> ob_y example_tree \<noteq> 16" by simp
  from h1 h2 C2_direction_unit_towards_obstacle [OF h1 h3] show ?thesis by simp
qed

section \<open>Terrain collisions\<close>

lemma terrain_sizes: "tileSize terrain_manager = 32" "chunkSize terrain_manager = 4"
  by (simp_all add: terrain_manager_def example_manager_def)

lemma getChunk_terrain: "getChunk terrain_manager 0 0 = (example_chunk, terrain_manager)"
  by (simp add: getChunk_def terrain_manager_def key_of_def example_chunk_def Let_def)


lemma terrain_collision_eval:
  "checkTerrainCollision terrain_manager 49 48 1 =
     (Collided \<lparr> to_type = ''forest'', to_tileType = 5, to_x = 48, to_y = 48 \<rparr> 12.8
        (Fin (-1)) (Fin 0), terrain_manager)"
  "checkTerrainCollision terrain_manager 48 48 1 =
     (Collided \<lparr> to_type = ''forest'', to_tileType = 5, to_x = 48, to_y = 48 \<rparr> 13.8
        NaN NaN, terrain_manager)"
  by (simp_all add: checkTerrainCollision_def offsets_eval terrain_sizes
      getTileAtWorld_def getChunk_terrain Let_def example_chunk_def collisionTiles_def
      getTileName_def js_div_def)


lemma getTileAtWorld_nonzero: "fst (getTileAtWorld s x y) \<noteq> 0"
  by (simp add: getTileAtWorld_def Let_def split: prod.splits)

text \<open>No step of a lookup changes the two sizes.\<close>

lemma decorateChunk_sizes:
  "tileSize (decorateChunk s cx cy tls bd px) = tileSize s"
  "chunkSize (decorateChunk s cx cy tls bd px) = chunkSize s"
  by (simp_all add: decorateChunk_def Let_def)

lemma createCanvasForTiles_sizes:
  "tileSize (snd (createCanvasForTiles s cx cy d)) = tileSize s"
  "chunkSize (snd (createCanvasForTiles s cx cy d)) = chunkSize s"
  by (simp_all add: createCanvasForTiles_def Let_def decorateChunk_sizes)

lemma postProcessGeneratedChunk_sizes:
  "tileSize (snd (postProcessGeneratedChunk s cx cy d)) = tileSize s"
  "chunkSize (snd (postProcessGeneratedChunk s cx cy d)) = chunkSize s"
  using createCanvasForTiles_sizes [of s cx cy d]
  by (auto simp: postProcessGeneratedChunk_def split: prod.splits)

lemma generateSync_sizes:
  "tileSize (snd (generateSync s cx cy)) = tileSize s"
  "chunkSize (snd (generateSync s cx cy)) = chunkSize s"
  using postProcessGeneratedChunk_sizes [of s cx cy "Some (generateChunkData s cx cy)"]
  by (auto simp: generateSync_def Let_def split: prod.splits)

lemma startGeneration_sizes:
  "tileSize (snd (startGeneration s cx cy)) = tileSize s"
  "chunkSize (snd (startGeneration s cx cy)) = chunkSize s"
  using generateSync_sizes [of s cx cy]
  by (auto simp: startGeneration_def Let_def split: option.splits prod.splits)

lemma generateChunkAsync_sizes:
  "tileSize (snd (generateChunkAsync s cx cy)) = tileSize s"
  "chunkSize (snd (generateChunkAsync s cx cy)) = chunkSize s"
  by (simp_all add: generateChunkAsync_def Let_def startGeneration_sizes split: option.splits)

lemma getChunk_sizes:
  "tileSize (snd (getChunk s cx cy)) = tileSize s"
  "chunkSize (snd (getChunk s cx cy)) = chunkSize s"
  using postProcessGeneratedChunk_sizes [of s cx cy None]
  by (auto simp: getChunk_def Let_def generateChunkAsync_sizes split: option.splits prod.splits)

lemma getTileAtWorld_sizes:
  "tileSize (snd (getTileAtWorld s x y)) = tileSize s"
  "chunkSize (snd (getTileAtWorld s x y)) = chunkSize s"
  using getChunk_sizes [of s "\<lfloor>real_of_int \<lfloor>x / tileSize s\<rfloor> / real (chunkSize s)\<rfloor>"
      "\<lfloor>real_of_int \<lfloor>y / tileSize s\<rfloor> / real (chunkSize s)\<rfloor>"]
  by (auto simp: getTileAtWorld_def Let_def split: prod.splits)

text \<open>What a reported terrain collision is: a blocking tile or an ocean tile, in reach.\<close>

lemma scanTiles_sound:
  "scanTiles s x y radius cells = (Collided ob p dx dy, s') \<Longrightarrow>
   (to_tileType ob \<in> set collisionTiles \<and>
      distanceTo (to_x ob) (to_y ob) x y < radius + tileSize s * 0.4) \<or>
   (to_tileType ob = 1 \<and>
      distanceTo (to_x ob) (to_y ob) x y < radius + tileSize s * 0.3)"
proof (induction cells arbitrary: s)
  case Nil
  then show ?case by simp
next
  case (Cons c cells)
  obtain checkX checkY where c: "c = (checkX, checkY)" by (cases c)
  obtain t s1 where
    g: "getTileAtWorld s (of_int checkX * tileSize s) (of_int checkY * tileSize s) = (t, s1)"
    by (cases "getTileAtWorld s (of_int checkX * tileSize s) (of_int checkY * tileSize s)")
  from g have t0: "t \<noteq> 0"
    using getTileAtWorld_nonzero [of s "of_int checkX * tileSize s" "of_int checkY * tileSize s"]
    by simp
  from g have ts: "tileSize s1 = tileSize s"
    using getTileAtWorld_sizes(1) [of s "of_int checkX * tileSize s" "of_int checkY * tileSize s"]
    by simp
  from Cons.prems c g t0 ts Cons.IH [of s1] show ?case
    by (auto simp: Let_def distanceTo_def split: if_splits)
qed

lemma checkTerrainCollision_sound:
  assumes "fst (checkTerrainCollision s x y radius) = Collided ob p dx dy"
  shows "(to_tileType ob \<in> set collisionTiles \<and>
            distanceTo (to_x ob) (to_y ob) x y < radius + tileSize s * 0.4) \<or>
         (to_tileType ob = 1 \<and>
            distanceTo (to_x ob) (to_y ob) x y < radius + tileSize s * 0.3)"
proof -
  obtain s' where "checkTerrainCollision s x y radius = (Collided ob p dx dy, s')"
    using assms by (cases "checkTerrainCollision s x y radius") simp
  then show ?thesis
    unfolding checkTerrainCollision_def Let_def by (rule scanTiles_sound)
qed


text \<open>
  C3, evaluated where the query point is the centre of the obstacle: \<^verbatim>\<open>checkCollision\<close>
  on the centre \<open>(16, 16)\<close> of the registered tree, and \<^verbatim>\<open>_checkTerrainCollision\<close> on
  the centre \<open>(48, 48)\<close> of the forest tile \<open>(1, 1)\<close>, both divide \<open>0\<close> by the distance
  \<open>0\<close> and return a direction whose two components are \<^verbatim>\<open>NaN\<close>.
\<close>

theorem C3_direction_at_distance_zero:
  "checkCollision busy_manager 16 16 1 None = Collided example_tree 20.16928 NaN NaN \<and>
   fst (checkTerrainCollision terrain_manager 48 48 1) =
     Collided \<lparr> to_type = ''forest'', to_tileType = 5, to_x = 48, to_y = 48 \<rparr> 13.8 NaN NaN"
proof -
  have "checkCollision busy_manager 16 16 1 None = Collided example_tree 20.16928 NaN NaN"
    by (simp add: checkCollision_def busy_manager_def example_manager_def offsets_eval
        key_of_def example_tree_eval js_div_def)
  then show ?thesis by (simp add: terrain_collision_eval)
qed




section \<open>The tile lookup\<close>

text \<open>
  C10. \<^verbatim>\<open>getTileAtWorld\<close> never returns the tile type 0. Where the chunk that
  contains the point is complete in the cache and the tile stored for the point is 0, it
  returns 4 and leaves the manager as it was. Hence no collision reported by
  \<^verbatim>\<open>_checkTerrainCollision\<close> is with a tile of type 0.
\<close>

theorem C10_getTileAtWorld_never_deep_ocean:
  "fst (getTileAtWorld s x y) \<noteq> 0 \<and>
   (let tx = \<lfloor>x / tileSize s\<rfloor>;
        ty = \<lfloor>y / tileSize s\<rfloor>;
        cx = \<lfloor>real_of_int tx / real (chunkSize s)\<rfloor>;
        cy = \<lfloor>real_of_int ty / real (chunkSize s)\<rfloor>;
        localX = tx - cx * int (chunkSize s);
        localY = ty - cy * int (chunkSize s)
    in map_of (chunks s) (key_of cx cy) = Some chunk \<and> chunk_canvas chunk \<noteq> None \<and>
       chunk_tiles chunk ! nat (localY * int (chunkSize s) + localX) = 0
       \<longrightarrow> getTileAtWorld s x y = (4, s)) \<and>
   (fst (checkTerrainCollision s x y radius) = Collided tob p dx dy \<longrightarrow> to_tileType tob \<noteq> 0)"
proof (intro conjI)
  show "fst (getTileAtWorld s x y) \<noteq> 0" by (rule getTileAtWorld_nonzero)
  show "let tx = \<lfloor>x / tileSize s\<rfloor>;
        ty = \<lfloor>y / tileSize s\<rfloor>;
        cx = \<lfloor>real_of_int tx / real (chunkSize s)\<rfloor>;
        cy = \<lfloor>real_of_int ty / real (chunkSize s)\<rfloor>;
        localX = tx - cx * int (chunkSize s);
        localY = ty - cy * int (chunkSize s)
    in map_of (chunks s) (key_of cx cy) = Some chunk \<and> chunk_canvas chunk \<noteq> None \<and>
       chunk_tiles chunk ! nat (localY * int (chunkSize s) + localX) = 0
       \<longrightarrow> getTileAtWorld s x y = (4, s)"
    by (auto simp: getTileAtWorld_def getChunk_def Let_def)
  show "fst (checkTerrainCollision s x y radius) = Collided tob p dx dy \<longrightarrow>
        to_tileType tob \<noteq> 0"
  proof
    assume "fst (checkTerrainCollision s x y radius) = Collided tob p dx dy"
    from checkTerrainCollision_sound [OF this] show "to_tileType tob \<noteq> 0"
      by (auto simp: collisionTiles_def)
  qed
qed

text \<open>
  The instances: the point \<open>(100, 100)\<close> lies on tile \<open>(3, 3)\<close> of the cached chunk,
  where a 0 is stored, and the lookup returns 4; the terrain collision at \<open>(49, 48)\<close> is
  with a forest tile.
\<close>

theorem C10_getTileAtWorld_never_deep_ocean_witness:
  "map_of (chunks terrain_manager) (key_of 0 0) = Some example_chunk \<and>
   chunk_canvas example_chunk \<noteq> None \<and>
   chunk_tiles example_chunk ! 15 = 0 \<and>
   getTileAtWorld terrain_manager 100 100 = (4, terrain_manager) \<and>
   fst (checkTerrainCollision terrain_manager 49 48 1) =
     Collided \<lparr> to_type = ''forest'', to_tileType = 5, to_x = 48, to_y = 48 \<rparr> 12.8
       (Fin (-1)) (Fin 0) \<and>
   to_tileType \<lparr> to_type = ''forest'', to_tileType = 5, to_x = 48, to_y = 48 \<rparr> \<noteq> 0"
proof -
  have a: "map_of (chunks terrain_manager) (key_of 0 0) = Some example_chunk \<and>
     chunk_canvas example_chunk \<noteq> None \<and> chunk_tiles example_chunk ! 15 = 0"
    by (simp add: terrain_manager_def key_of_def example_chunk_def)
  have b: "fst (checkTerrainCollision terrain_manager 49 48 1) =
     Collided \<lparr> to_type = ''forest'', to_tileType = 5, to_x = 48, to_y = 48 \<rparr> 12.8
       (Fin (-1)) (Fin 0)"
    by (simp add: terrain_collision_eval)
  from a C10_getTileAtWorld_never_deep_ocean [of terrain_manager 100 100 example_chunk]
  have "getTileAtWorld terrain_manager 100 100 = (4, terrain_manager)"
    by (simp add: terrain_sizes Let_def)
  moreover from b C10_getTileAtWorld_never_deep_ocean
    [of terrain_manager 49 48 _ 1
        "\<lparr> to_type = ''forest'', to_tileType = 5, to_x = 48, to_y = 48 \<rparr>" "12.8" "Fin (-1)" "Fin 0"]
  have "to_tileType \<lparr> to_type = ''forest'', to_tileType = 5, to_x = 48, to_y = 48 \<rparr> \<noteq> 0"
    by blast
  ultimately show ?thesis using a b by simp
qed


end
